theory Spec2Isabelle
  imports Main "HOL-Library.Word" "HOL-Library.Sublist"
begin

section \<open>The todo component of \<open>src/App.tsx\<close>\<close>

text \<open>
  The component \<open>App\<close> keeps three state cells (\<open>count\<close>, \<open>todos\<close>, \<open>inputValue\<close>) and five
  event handlers. Each handler is modelled as a function from the state before the event to
  the state after it. The source contains no \<open>throw\<close>, no indexing and no division: none of
  the handlers has a failing branch, so the handlers are plain total functions.
\<close>

subsection \<open>Data\<close>

text \<open>
  A JavaScript string is a sequence of 16-bit code units. Literals below are written as
  code-unit lists, e.g. \<open>[0x20, 0x61]\<close> for \<open>" a"\<close>.
\<close>

type_synonym code_unit = "16 word"
type_synonym jsstring = "code_unit list"

text \<open>
  \<open>type Todo = { id: number; text: string; completed: boolean }\<close>. The fields \<open>id\<close> and
  \<open>text\<close> carry a suffix because both names are taken in Isabelle. Every \<open>id\<close> the
  component creates is a result of \<open>Date.now()\<close>, an integer number of milliseconds, so
  \<open>number\<close> is modelled by \<open>int\<close>.
\<close>

record todo =
  id_field :: int
  text_field :: jsstring
  completed :: bool

text \<open>
  The state cells of \<open>App\<close>. \<open>todosRef\<close> is not a cell of its own: it stands for the
  identity of the array object that the cell \<open>todos\<close> currently holds (what \<open>useMemo\<close>
  compares in its dependency list \<open>[todos]\<close>). Every \<open>setTodos\<close> of the source installs a
  newly built array (spread, \<open>map\<close>, \<open>filter\<close>), which is a new object.
\<close>

record app_state =
  count :: int
  todos :: "todo list"
  todosRef :: nat
  inputValue :: jsstring

text \<open>\<open>useState(0)\<close>, \<open>useState<Todo[]>([])\<close>, \<open>useState('')\<close>.\<close>

definition init :: app_state where
  "init = \<lparr>count = 0, todos = [], todosRef = 0, inputValue = []\<rparr>"

subsection \<open>\<open>String.prototype.trim\<close>\<close>

text \<open>
  \<open>trim\<close> belongs to the language, not to the repository. It strips the code units that
  ECMAScript calls WhiteSpace (TAB, VT, FF, SP, NBSP, ZWNBSP and the Unicode space
  separators) and LineTerminator (LF, CR, LS, PS) from both ends.
\<close>

definition isWhiteSpace :: "code_unit \<Rightarrow> bool" where
  "isWhiteSpace c \<longleftrightarrow>
     c = 0x0009 \<or> c = 0x000A \<or> c = 0x000B \<or> c = 0x000C \<or> c = 0x000D \<or> c = 0x0020 \<or>
     c = 0x00A0 \<or> c = 0x1680 \<or> (0x2000 \<le> c \<and> c \<le> 0x200A) \<or> c = 0x2028 \<or>
     c = 0x2029 \<or> c = 0x202F \<or> c = 0x205F \<or> c = 0x3000 \<or> c = 0xFEFF"

definition trim :: "jsstring \<Rightarrow> jsstring" where
  "trim s = rev (dropWhile isWhiteSpace (rev (dropWhile isWhiteSpace s)))"

subsection \<open>Derived values\<close>

text \<open>\<open>todos.length * 100\<close>, the body of the first \<open>useMemo\<close>.\<close>

definition expensiveTodoComputation :: "todo list \<Rightarrow> nat" where
  "expensiveTodoComputation ts = length ts * 100"

text \<open>\<open>todos.filter(todo => todo.completed).length\<close>, the body of the second \<open>useMemo\<close>.\<close>

definition completedTodosCount :: "todo list \<Rightarrow> nat" where
  "completedTodosCount ts = length (filter (\<lambda>todo. completed todo) ts)"

text \<open>\<open>{todos.length}\<close>, rendered as "Total Todos".\<close>

definition totalCount :: "todo list \<Rightarrow> nat" where
  "totalCount ts = length ts"

subsection \<open>Handlers\<close>

text \<open>\<open>setTodos(f)\<close> with an updater \<open>f\<close> that builds a new array.\<close>

definition setTodos :: "(todo list \<Rightarrow> todo list) \<Rightarrow> app_state \<Rightarrow> app_state" where
  "setTodos f s = s\<lparr>todos := f (todos s), todosRef := Suc (todosRef s)\<rparr>"

text \<open>
  \<open>setCount(c => c + 1)\<close>. The counter starts at 0 and changes only here, so it stays
  among the integers that a JavaScript number holds exactly (below \<open>2^53\<close>, out of reach of
  any session); it is modelled by \<open>int\<close>.
\<close>

definition increment :: "app_state \<Rightarrow> app_state" where
  "increment s = s\<lparr>count := count s + 1\<rparr>"

text \<open>\<open>onChange={(e) => setInputValue(e.target.value)}\<close>.\<close>

definition setInputValue :: "jsstring \<Rightarrow> app_state \<Rightarrow> app_state" where
  "setInputValue v s = s\<lparr>inputValue := v\<rparr>"

text \<open>
  \<open>addTodo\<close> reads the cell \<open>inputValue\<close> and the clock. The value that \<open>Date.now()\<close>
  returns at the call is the parameter \<open>now\<close>. A string is truthy iff it is non-empty.
\<close>

definition addTodo :: "int \<Rightarrow> app_state \<Rightarrow> app_state" where
  "addTodo now s =
     (if trim (inputValue s) \<noteq> [] then
        let newTodo = \<lparr>id_field = now, text_field = inputValue s, completed = False\<rparr>
        in setInputValue [] (setTodos (\<lambda>prev. prev @ [newTodo]) s)
      else s)"

text \<open>\<open>prev.map(todo => todo.id === id ? { ...todo, completed: !todo.completed } : todo)\<close>.\<close>

definition toggleTodo :: "int \<Rightarrow> app_state \<Rightarrow> app_state" where
  "toggleTodo i s =
     setTodos (map (\<lambda>todo. if id_field todo = i
                            then todo\<lparr>completed := \<not> completed todo\<rparr> else todo)) s"

text \<open>\<open>prev.filter(todo => todo.id !== id)\<close>.\<close>

definition deleteTodo :: "int \<Rightarrow> app_state \<Rightarrow> app_state" where
  "deleteTodo i s = setTodos (filter (\<lambda>todo. id_field todo \<noteq> i)) s"

subsection \<open>Sessions\<close>

text \<open>
  The host dispatches one event at a time and each handler runs to completion before the
  next event. \<open>AddTodo\<close> carries the clock reading of that call. The component renders
  between two events of a session, so the \<open>inputValue\<close> that the closure of \<open>addTodo\<close>
  captured is the current content of the cell.
\<close>

datatype event =
    Increment
  | SetInputValue jsstring
  | AddTodo int
  | ToggleTodo int
  | DeleteTodo int

fun step :: "event \<Rightarrow> app_state \<Rightarrow> app_state" where
  "step Increment s = increment s"
| "step (SetInputValue v) s = setInputValue v s"
| "step (AddTodo now) s = addTodo now s"
| "step (ToggleTodo i) s = toggleTodo i s"
| "step (DeleteTodo i) s = deleteTodo i s"

fun run :: "event list \<Rightarrow> app_state \<Rightarrow> app_state" where
  "run [] s = s"
| "run (e # es) s = run es (step e s)"

subsection \<open>Bookkeeping over a session\<close>

text \<open>
  The id invariant of the data model: the ids of the records held are pairwise distinct.
\<close>

definition distinctIds :: "app_state \<Rightarrow> bool" where
  "distinctIds s = distinct (map id_field (todos s))"

text \<open>
  The two counts of the specification's first testable property, taken along a session that
  starts in \<open>s\<close>. \<open>addCalls\<close> counts the calls of \<open>addTodo\<close> made while the trimmed input is
  non-empty; \<open>deleteHits\<close> counts the calls of \<open>deleteTodo\<close> whose id is held by some record
  at the time of the call.
\<close>

fun addCalls :: "event list \<Rightarrow> app_state \<Rightarrow> nat" where
  "addCalls [] s = 0"
| "addCalls (AddTodo now # es) s =
     (if trim (inputValue s) \<noteq> [] then 1 else 0) + addCalls es (addTodo now s)"
| "addCalls (e # es) s = addCalls es (step e s)"

fun deleteHits :: "event list \<Rightarrow> app_state \<Rightarrow> nat" where
  "deleteHits [] s = 0"
| "deleteHits (DeleteTodo i # es) s =
     (if i \<in> set (map id_field (todos s)) then 1 else 0) + deleteHits es (deleteTodo i s)"
| "deleteHits (e # es) s = deleteHits es (step e s)"

text \<open>
  A condition on the clock, not on the code: every accepted \<open>addTodo\<close> of the session reads
  a time that no record held at that moment has as its id.
\<close>

fun freshClock :: "event list \<Rightarrow> app_state \<Rightarrow> bool" where
  "freshClock [] s = True"
| "freshClock (AddTodo now # es) s =
     ((trim (inputValue s) = [] \<or> now \<notin> set (map id_field (todos s))) \<and>
      freshClock es (addTodo now s))"
| "freshClock (e # es) s = freshClock es (step e s)"

section \<open>Projections of the handlers\<close>

lemma todos_addTodo:
  "todos (addTodo now s) =
     (if trim (inputValue s) \<noteq> []
      then todos s @ [\<lparr>id_field = now, text_field = inputValue s, completed = False\<rparr>]
      else todos s)"
  by (simp add: addTodo_def setTodos_def setInputValue_def)

lemma todos_toggleTodo:
  "todos (toggleTodo i s) =
     map (\<lambda>todo. if id_field todo = i then todo\<lparr>completed := \<not> completed todo\<rparr> else todo)
       (todos s)"
  by (simp add: toggleTodo_def setTodos_def)

lemma todos_deleteTodo:
  "todos (deleteTodo i s) = filter (\<lambda>todo. id_field todo \<noteq> i) (todos s)"
  by (simp add: deleteTodo_def setTodos_def)

lemma ids_toggleTodo: "map id_field (todos (toggleTodo i s)) = map id_field (todos s)"
  by (simp add: todos_toggleTodo)

text \<open>Two sample sessions, evaluated once for the instances below.\<close>

lemma run_two_adds:
  "run [SetInputValue [0x61], AddTodo 1, SetInputValue [0x62], AddTodo 2] init =
     \<lparr>count = 0,
      todos = [\<lparr>id_field = 1, text_field = [0x61], completed = False\<rparr>,
               \<lparr>id_field = 2, text_field = [0x62], completed = False\<rparr>],
      todosRef = 2, inputValue = []\<rparr>"
  by (simp add: init_def addTodo_def setTodos_def setInputValue_def trim_def isWhiteSpace_def)

lemma run_same_clock:
  "run [SetInputValue [0x61], AddTodo 1000, SetInputValue [0x62], AddTodo 1000,
        SetInputValue [0x63], AddTodo 1001] init =
     \<lparr>count = 0,
      todos = [\<lparr>id_field = 1000, text_field = [0x61], completed = False\<rparr>,
               \<lparr>id_field = 1000, text_field = [0x62], completed = False\<rparr>,
               \<lparr>id_field = 1001, text_field = [0x63], completed = False\<rparr>],
      todosRef = 3, inputValue = []\<rparr>"
  by (simp add: init_def addTodo_def setTodos_def setInputValue_def trim_def isWhiteSpace_def)

section \<open>Adding a todo\<close>

text \<open>
  C1, as stated, fails: the record appended by \<open>addTodo\<close> does not hold the trimmed input.
  With the input \<open>" a"\<close> (trim \<open>"a"\<close>) the stored text is \<open>" a"\<close>.
\<close>

theorem addTodo_stores_trimmed_counterexample:
  "trim [0x20, 0x61] \<noteq> [] \<and>
   text_field (last (todos (addTodo 1000 (setInputValue [0x20, 0x61] init)))) = [0x20, 0x61] \<and>
   text_field (last (todos (addTodo 1000 (setInputValue [0x20, 0x61] init)))) \<noteq>
     trim [0x20, 0x61]"
  by (simp add: addTodo_def setTodos_def setInputValue_def init_def trim_def isWhiteSpace_def)

text \<open>
  C1, amended. For every input whose trim is non-empty, \<open>addTodo\<close> appends to the end of the
  sequence one record whose text is the input exactly as entered (not trimmed), whose
  \<open>completed\<close> flag is false and whose id is the clock reading of the call; the records
  already present stay as they were and in place, the input cell is cleared and the counter
  is untouched.
\<close>

theorem addTodo_appends_input:
  assumes "trim (inputValue s) \<noteq> []"
  shows "todos (addTodo now s) =
           todos s @ [\<lparr>id_field = now, text_field = inputValue s, completed = False\<rparr>] \<and>
         totalCount (todos (addTodo now s)) = Suc (totalCount (todos s)) \<and>
         take (length (todos s)) (todos (addTodo now s)) = todos s \<and>
         inputValue (addTodo now s) = [] \<and> count (addTodo now s) = count s"
  using assms by (simp add: addTodo_def setTodos_def setInputValue_def totalCount_def)

theorem addTodo_appends_input_witness:
  "trim (inputValue (setInputValue [0x20, 0x61] init)) \<noteq> [] \<and>
   todos (addTodo 1000 (setInputValue [0x20, 0x61] init)) =
     [\<lparr>id_field = 1000, text_field = [0x20, 0x61], completed = False\<rparr>]"
proof -
  have h: "trim (inputValue (setInputValue [0x20, 0x61] init)) \<noteq> []"
    by (simp add: setInputValue_def init_def trim_def isWhiteSpace_def)
  from addTodo_appends_input [OF h, of 1000] h show ?thesis
    by (simp add: setInputValue_def init_def)
qed

text \<open>
  C5. For every input whose trim is empty (empty or made of white space only), \<open>addTodo\<close>
  returns the state it was given: no record is added, nothing else changes, and there is no
  failing branch.
\<close>

theorem addTodo_blank_noop:
  "trim (inputValue s) = [] \<Longrightarrow> addTodo now s = s"
  by (simp add: addTodo_def)

theorem addTodo_blank_noop_witness:
  "trim (inputValue (setInputValue [0x20, 0x20] init)) = [] \<and>
   addTodo 1000 (setInputValue [0x20, 0x20] init) = setInputValue [0x20, 0x20] init \<and>
   length (todos (addTodo 1000 (setInputValue [0x20, 0x20] init))) = length (todos init)"
proof -
  have h: "trim (inputValue (setInputValue [0x20, 0x20] init)) = []"
    by (simp add: setInputValue_def init_def trim_def isWhiteSpace_def)
  from addTodo_blank_noop [OF h, of 1000] h show ?thesis
    by (simp add: setInputValue_def init_def)
qed

section \<open>The counter\<close>

text \<open>
  C4. \<open>increment\<close> replaces the counter by the counter plus one and has no failing branch;
  it leaves the todo sequence as it is, the very same array object, and with it every value
  derived from the sequence. In the other direction \<open>addTodo\<close>, \<open>toggleTodo\<close> and
  \<open>deleteTodo\<close> leave the counter as it is.
\<close>

theorem increment_frame:
  "count (increment s) = count s + 1 \<and>
   todos (increment s) = todos s \<and> todosRef (increment s) = todosRef s \<and>
   inputValue (increment s) = inputValue s \<and>
   totalCount (todos (increment s)) = totalCount (todos s) \<and>
   completedTodosCount (todos (increment s)) = completedTodosCount (todos s) \<and>
   expensiveTodoComputation (todos (increment s)) = expensiveTodoComputation (todos s) \<and>
   count (addTodo now s) = count s \<and> count (toggleTodo i s) = count s \<and>
   count (deleteTodo i s) = count s"
  by (simp add: increment_def addTodo_def toggleTodo_def deleteTodo_def setTodos_def
      setInputValue_def)

theorem increment_frame_witness:
  "count (increment init) = 1 \<and> todos (increment init) = [] \<and>
   todosRef (increment init) = todosRef init \<and>
   count (deleteTodo 7 (toggleTodo 7 (addTodo 1000 (setInputValue [0x61] init)))) = 0"
  using increment_frame [of init] increment_frame [of "setInputValue [0x61] init" 1000 7]
    increment_frame [of "addTodo 1000 (setInputValue [0x61] init)" 1000 7]
    increment_frame [of "toggleTodo 7 (addTodo 1000 (setInputValue [0x61] init))" 1000 7]
  by (simp add: init_def setInputValue_def)

text \<open>Over a whole session the counter is the number of \<open>Increment\<close> events.\<close>

lemma count_run: "count (run es s) = count s + int (length (filter (\<lambda>e. e = Increment) es))"
proof (induction es arbitrary: s)
  case Nil
  then show ?case by simp
next
  case (Cons e es)
  then show ?case
    by (cases e) (simp_all add: increment_def setInputValue_def addTodo_def toggleTodo_def
        deleteTodo_def setTodos_def)
qed

section \<open>Toggling and deleting\<close>

text \<open>
  C6. When no record of the sequence has the given id, \<open>toggleTodo\<close> and \<open>deleteTodo\<close> both
  hand back the sequence with the same records in the same order, and nothing else of the
  state changes apart from the identity of the array; neither has a failing branch. In
  particular deleting any id from the empty initial sequence gives the empty sequence.
\<close>

theorem absent_id_noop:
  assumes "\<forall>t \<in> set (todos s). id_field t \<noteq> i"
  shows "todos (toggleTodo i s) = todos s \<and> todos (deleteTodo i s) = todos s \<and>
         toggleTodo i s = s\<lparr>todosRef := Suc (todosRef s)\<rparr> \<and>
         deleteTodo i s = s\<lparr>todosRef := Suc (todosRef s)\<rparr> \<and>
         todos (deleteTodo j init) = []"
proof -
  have "map (\<lambda>todo. if id_field todo = i then todo\<lparr>completed := \<not> completed todo\<rparr> else todo)
          (todos s) = todos s"
    using assms by (simp add: map_idI)
  moreover have "filter (\<lambda>todo. id_field todo \<noteq> i) (todos s) = todos s"
    using assms by simp
  ultimately show ?thesis
    by (simp add: toggleTodo_def deleteTodo_def setTodos_def init_def)
qed

theorem absent_id_noop_witness:
  "map id_field
     (todos (run [SetInputValue [0x61], AddTodo 1, SetInputValue [0x62], AddTodo 2] init)) =
     [1, 2] \<and>
   todos (toggleTodo 9999
      (run [SetInputValue [0x61], AddTodo 1, SetInputValue [0x62], AddTodo 2] init)) =
     [\<lparr>id_field = 1, text_field = [0x61], completed = False\<rparr>,
      \<lparr>id_field = 2, text_field = [0x62], completed = False\<rparr>] \<and>
   todos (deleteTodo 9999
      (run [SetInputValue [0x61], AddTodo 1, SetInputValue [0x62], AddTodo 2] init)) =
     [\<lparr>id_field = 1, text_field = [0x61], completed = False\<rparr>,
      \<lparr>id_field = 2, text_field = [0x62], completed = False\<rparr>] \<and>
   todos (deleteTodo 9999 init) = []"
proof -
  have h: "\<forall>t \<in> set (todos (run [SetInputValue [0x61], AddTodo 1, SetInputValue [0x62],
      AddTodo 2] init)). id_field t \<noteq> 9999"
    by (simp add: run_two_adds del: run.simps)
  from absent_id_noop [OF h, of 9999] show ?thesis
    by (simp add: run_two_adds del: run.simps)
qed

text \<open>
  C7. When exactly one record of the sequence, the one at position \<open>n\<close>, has the given id,
  \<open>toggleTodo\<close> returns a new array of the same length and order in which the record at
  \<open>n\<close> has its \<open>completed\<close> flag inverted and its id and text kept, and every other record
  is the record that was there before.
\<close>

theorem toggleTodo_flips_one:
  assumes "n < length (todos s)" and "id_field (todos s ! n) = i"
    and "\<forall>m < length (todos s). m \<noteq> n \<longrightarrow> id_field (todos s ! m) \<noteq> i"
  shows "todos (toggleTodo i s) =
           (todos s)[n := (todos s ! n)\<lparr>completed := \<not> completed (todos s ! n)\<rparr>] \<and>
         length (todos (toggleTodo i s)) = length (todos s) \<and>
         completed (todos (toggleTodo i s) ! n) = (\<not> completed (todos s ! n)) \<and>
         id_field (todos (toggleTodo i s) ! n) = i \<and>
         text_field (todos (toggleTodo i s) ! n) = text_field (todos s ! n) \<and>
         (\<forall>m < length (todos s). m \<noteq> n \<longrightarrow> todos (toggleTodo i s) ! m = todos s ! m) \<and>
         todosRef (toggleTodo i s) \<noteq> todosRef s"
proof -
  have eq: "todos (toggleTodo i s) =
           (todos s)[n := (todos s ! n)\<lparr>completed := \<not> completed (todos s ! n)\<rparr>]"
    using assms by (intro nth_equalityI) (auto simp: todos_toggleTodo nth_list_update)
  have "todosRef (toggleTodo i s) \<noteq> todosRef s"
    by (simp add: toggleTodo_def setTodos_def)
  then show ?thesis
    unfolding eq using assms by simp
qed

theorem toggleTodo_flips_one_witness:
  "map id_field
     (todos (run [SetInputValue [0x61], AddTodo 1, SetInputValue [0x62], AddTodo 2] init)) =
     [1, 2] \<and>
   todos (toggleTodo 2
      (run [SetInputValue [0x61], AddTodo 1, SetInputValue [0x62], AddTodo 2] init)) =
     [\<lparr>id_field = 1, text_field = [0x61], completed = False\<rparr>,
      \<lparr>id_field = 2, text_field = [0x62], completed = True\<rparr>]"
proof -
  let ?s = "run [SetInputValue [0x61], AddTodo 1, SetInputValue [0x62], AddTodo 2] init"
  have h1: "1 < length (todos ?s)" and h2: "id_field (todos ?s ! 1) = 2"
    by (simp_all add: run_two_adds del: run.simps)
  have h3: "\<forall>m < length (todos ?s). m \<noteq> 1 \<longrightarrow> id_field (todos ?s ! m) \<noteq> 2"
    by (simp add: run_two_adds less_Suc_eq del: run.simps)
  from toggleTodo_flips_one [OF h1 h2 h3] show ?thesis
    by (simp add: run_two_adds del: run.simps)
qed

text \<open>
  C8. For every sequence and every id, toggling that id twice in succession gives back a
  sequence equal to the original record for record; the counter and the input cell are
  untouched as well. Throughout, the records whose id differs from the given one are
  unchanged: already after the first toggle the sequence has the same length, every record
  keeps its id and text, a record with the given id has its \<open>completed\<close> flag inverted, and
  a record with another id is the record that was there before.
\<close>

theorem toggleTodo_twice:
  "todos (toggleTodo i (toggleTodo i s)) = todos s \<and>
   count (toggleTodo i (toggleTodo i s)) = count s \<and>
   inputValue (toggleTodo i (toggleTodo i s)) = inputValue s \<and>
   length (todos (toggleTodo i s)) = length (todos s) \<and>
   (\<forall>m < length (todos s).
      id_field (todos (toggleTodo i s) ! m) = id_field (todos s ! m) \<and>
      text_field (todos (toggleTodo i s) ! m) = text_field (todos s ! m) \<and>
      completed (todos (toggleTodo i s) ! m) =
        (if id_field (todos s ! m) = i then \<not> completed (todos s ! m)
         else completed (todos s ! m)) \<and>
      (id_field (todos s ! m) \<noteq> i \<longrightarrow> todos (toggleTodo i s) ! m = todos s ! m))"
proof -
  have "map (\<lambda>todo. if id_field todo = i then todo\<lparr>completed := \<not> completed todo\<rparr> else todo)
          (map (\<lambda>todo. if id_field todo = i then todo\<lparr>completed := \<not> completed todo\<rparr> else todo)
             (todos s)) = todos s"
    by (induction "todos s" arbitrary: s) (simp_all add: map_idI)
  then have twice: "todos (toggleTodo i (toggleTodo i s)) = todos s \<and>
      count (toggleTodo i (toggleTodo i s)) = count s \<and>
      inputValue (toggleTodo i (toggleTodo i s)) = inputValue s"
    by (simp add: toggleTodo_def setTodos_def)
  have once: "length (todos (toggleTodo i s)) = length (todos s) \<and>
      (\<forall>m < length (todos s).
         id_field (todos (toggleTodo i s) ! m) = id_field (todos s ! m) \<and>
         text_field (todos (toggleTodo i s) ! m) = text_field (todos s ! m) \<and>
         completed (todos (toggleTodo i s) ! m) =
           (if id_field (todos s ! m) = i then \<not> completed (todos s ! m)
            else completed (todos s ! m)) \<and>
         (id_field (todos s ! m) \<noteq> i \<longrightarrow> todos (toggleTodo i s) ! m = todos s ! m))"
    by (simp add: todos_toggleTodo)
  from twice once show ?thesis by (intro conjI) (elim conjE, assumption)+
qed

theorem toggleTodo_twice_witness:
  "todos (toggleTodo 1000
      (run [SetInputValue [0x61], AddTodo 1000, SetInputValue [0x62], AddTodo 1000,
            SetInputValue [0x63], AddTodo 1001] init)) ! 2 =
     \<lparr>id_field = 1001, text_field = [0x63], completed = False\<rparr> \<and>
   completed (todos (toggleTodo 1000
      (run [SetInputValue [0x61], AddTodo 1000, SetInputValue [0x62], AddTodo 1000,
            SetInputValue [0x63], AddTodo 1001] init)) ! 0) = True \<and>
   completed (todos (toggleTodo 1000
      (run [SetInputValue [0x61], AddTodo 1000, SetInputValue [0x62], AddTodo 1000,
            SetInputValue [0x63], AddTodo 1001] init)) ! 1) = True \<and>
   todos (toggleTodo 1000 (toggleTodo 1000
      (run [SetInputValue [0x61], AddTodo 1000, SetInputValue [0x62], AddTodo 1000,
            SetInputValue [0x63], AddTodo 1001] init))) =
     [\<lparr>id_field = 1000, text_field = [0x61], completed = False\<rparr>,
      \<lparr>id_field = 1000, text_field = [0x62], completed = False\<rparr>,
      \<lparr>id_field = 1001, text_field = [0x63], completed = False\<rparr>]"
  using toggleTodo_twice [of 1000 "run [SetInputValue [0x61], AddTodo 1000, SetInputValue [0x62],
      AddTodo 1000, SetInputValue [0x63], AddTodo 1001] init"]
  by (simp add: run_same_clock todos_toggleTodo del: run.simps)

text \<open>
  C10. For every sequence and every id, \<open>deleteTodo\<close> returns exactly the records whose id
  differs from the given one, in their original order: a record of the old sequence
  survives iff its id differs, and the length drops by the number of records that had the
  id. So when several records share the id, one call removes all of them.
\<close>

theorem deleteTodo_removes_all_matching:
  "todos (deleteTodo i s) = filter (\<lambda>t. id_field t \<noteq> i) (todos s) \<and>
   subseq (todos (deleteTodo i s)) (todos s) \<and>
   (\<forall>t \<in> set (todos s). t \<in> set (todos (deleteTodo i s)) \<longleftrightarrow> id_field t \<noteq> i) \<and>
   totalCount (todos (deleteTodo i s)) + length (filter (\<lambda>t. id_field t = i) (todos s)) =
     totalCount (todos s)"
proof -
  have "length (filter (\<lambda>t. id_field t \<noteq> i) (todos s)) +
        length (filter (\<lambda>t. id_field t = i) (todos s)) = length (todos s)"
    using sum_length_filter_compl [of "\<lambda>t. id_field t = i" "todos s"] by simp
  then show ?thesis
    by (simp add: todos_deleteTodo totalCount_def)
qed

theorem deleteTodo_removes_all_matching_witness:
  "length (filter (\<lambda>t. id_field t = 1000)
      (todos (run [SetInputValue [0x61], AddTodo 1000, SetInputValue [0x62], AddTodo 1000,
                   SetInputValue [0x63], AddTodo 1001] init))) = 2 \<and>
   todos (deleteTodo 1000
      (run [SetInputValue [0x61], AddTodo 1000, SetInputValue [0x62], AddTodo 1000,
            SetInputValue [0x63], AddTodo 1001] init)) =
     [\<lparr>id_field = 1001, text_field = [0x63], completed = False\<rparr>]"
  using deleteTodo_removes_all_matching [of 1000 "run [SetInputValue [0x61], AddTodo 1000,
      SetInputValue [0x62], AddTodo 1000, SetInputValue [0x63], AddTodo 1001] init"]
  by (simp add: run_same_clock del: run.simps)

section \<open>Derived counts\<close>

text \<open>
  C9. For every todo sequence the number of completed records is at most the number of
  records.
\<close>

theorem completedTodosCount_le_totalCount:
  "completedTodosCount ts \<le> totalCount ts"
  by (simp add: completedTodosCount_def totalCount_def)

theorem completedTodosCount_le_totalCount_witness:
  "completedTodosCount (todos (toggleTodo 2
      (run [SetInputValue [0x61], AddTodo 1, SetInputValue [0x62], AddTodo 2] init))) = 1 \<and>
   totalCount (todos (toggleTodo 2
      (run [SetInputValue [0x61], AddTodo 1, SetInputValue [0x62], AddTodo 2] init))) = 2"
  using completedTodosCount_le_totalCount [of "todos (toggleTodo 2
      (run [SetInputValue [0x61], AddTodo 1, SetInputValue [0x62], AddTodo 2] init))"]
  by (simp add: run_two_adds todos_toggleTodo completedTodosCount_def totalCount_def
      del: run.simps)

section \<open>Ids over a session\<close>

text \<open>
  The handlers keep the ids pairwise distinct as long as the clock never hands \<open>addTodo\<close> a
  time that is already the id of a record: \<open>toggleTodo\<close> keeps every id, \<open>deleteTodo\<close> only
  drops records, and \<open>addTodo\<close> appends one record whose id is the clock reading.
\<close>

lemma freshClock_Cons:
  "freshClock (e # es) s \<longleftrightarrow> freshClock [e] s \<and> freshClock es (step e s)"
  by (cases e) simp_all

lemma distinctIds_step:
  assumes "distinctIds s" and "freshClock [e] s"
  shows "distinctIds (step e s)"
proof (cases e)
  case (AddTodo now)
  with assms show ?thesis by (auto simp: distinctIds_def todos_addTodo)
next
  case (ToggleTodo i)
  with assms show ?thesis by (simp add: distinctIds_def ids_toggleTodo)
next
  case (DeleteTodo i)
  with assms show ?thesis by (simp add: distinctIds_def todos_deleteTodo distinct_map_filter)
qed (use assms in \<open>simp_all add: distinctIds_def increment_def setInputValue_def\<close>)

lemma distinctIds_run:
  "distinctIds s \<Longrightarrow> freshClock es s \<Longrightarrow> distinctIds (run es s)"
proof (induction es arbitrary: s)
  case Nil
  then show ?case by simp
next
  case (Cons e es)
  from Cons.prems have "distinctIds (step e s)" "freshClock es (step e s)"
    using distinctIds_step freshClock_Cons by blast+
  then show ?case by (simp add: Cons.IH)
qed

text \<open>
  C2. The claim is that the ids are pairwise distinct in every state reachable from the
  initial one. The code takes the id from the clock alone, so two accepted \<open>addTodo\<close> calls
  that read the same millisecond produce two records with one id: the session below is
  reachable and its ids are not distinct.
\<close>

theorem addTodo_id_collision:
  "\<not> distinctIds
       (run [SetInputValue [0x61], AddTodo 1000, SetInputValue [0x62], AddTodo 1000] init) \<and>
   map id_field (todos
       (run [SetInputValue [0x61], AddTodo 1000, SetInputValue [0x62], AddTodo 1000] init)) =
     [1000, 1000]"
  by (simp add: distinctIds_def init_def addTodo_def setTodos_def setInputValue_def trim_def
      isWhiteSpace_def)

section \<open>The length of the sequence over a session\<close>

lemma length_filter_distinct_id:
  assumes "distinct (map id_field ts)" and "i \<in> set (map id_field ts)"
  shows "Suc (length (filter (\<lambda>t. id_field t \<noteq> i) ts)) = length ts"
  using assms
proof (induction ts)
  case Nil
  then show ?case by simp
next
  case (Cons t ts)
  show ?case
  proof (cases "id_field t = i")
    case True
    from Cons.prems(1) have "id_field t \<notin> id_field ` set ts" by simp
    with True have "\<forall>u \<in> set ts. id_field u \<noteq> i" by blast
    then have "filter (\<lambda>t. id_field t \<noteq> i) ts = ts" by simp
    with True show ?thesis by simp
  next
    case False
    with Cons show ?thesis by simp
  qed
qed

lemma addCalls_Cons: "addCalls (e # es) s = addCalls [e] s + addCalls es (step e s)"
  by (cases e) simp_all

lemma deleteHits_Cons: "deleteHits (e # es) s = deleteHits [e] s + deleteHits es (step e s)"
  by (cases e) simp_all

lemma totalCount_step:
  assumes "distinctIds s"
  shows "totalCount (todos (step e s)) + deleteHits [e] s = totalCount (todos s) + addCalls [e] s"
proof (cases e)
  case (DeleteTodo i)
  show ?thesis
  proof (cases "i \<in> set (map id_field (todos s))")
    case True
    with assms length_filter_distinct_id [of "todos s" i] DeleteTodo show ?thesis
      by (simp add: distinctIds_def todos_deleteTodo totalCount_def)
  next
    case False
    then have "filter (\<lambda>t. id_field t \<noteq> i) (todos s) = todos s"
      by (auto simp: filter_id_conv)
    with False DeleteTodo show ?thesis
      by (simp add: todos_deleteTodo totalCount_def)
  qed
qed (simp_all add: todos_addTodo todos_toggleTodo totalCount_def increment_def setInputValue_def)

text \<open>
  With distinct ids at the start and a clock that never repeats an id that is held, the
  length of the sequence is the balance of accepted adds and hitting deletes.
\<close>

lemma totalCount_run:
  "distinctIds s \<Longrightarrow> freshClock es s \<Longrightarrow>
   totalCount (todos (run es s)) + deleteHits es s = totalCount (todos s) + addCalls es s"
proof (induction es arbitrary: s)
  case Nil
  then show ?case by simp
next
  case (Cons e es)
  from Cons.prems have d: "distinctIds (step e s)" and f: "freshClock es (step e s)"
    using distinctIds_step freshClock_Cons by blast+
  have "totalCount (todos (run es (step e s))) + deleteHits es (step e s) =
        totalCount (todos (step e s)) + addCalls es (step e s)"
    using Cons.IH [OF d f] .
  moreover have "totalCount (todos (step e s)) + deleteHits [e] s =
        totalCount (todos s) + addCalls [e] s"
    using totalCount_step [OF Cons.prems(1)] .
  ultimately show ?case
    using addCalls_Cons [of e es s] deleteHits_Cons [of e es s] by simp
qed

text \<open>
  C3. The claim is that after every session from the empty sequence the length equals the
  number of accepted \<open>addTodo\<close> calls minus the number of \<open>deleteTodo\<close> calls that hit. In
  the session below two adds are accepted at the same clock reading and one delete hits;
  the claim gives \<open>2 - 1 = 1\<close>, the code leaves no record.
\<close>

theorem totalCount_collision:
  "totalCount (todos (run [SetInputValue [0x61], AddTodo 1000, SetInputValue [0x62],
      AddTodo 1000, DeleteTodo 1000] init)) = 0 \<and>
   addCalls [SetInputValue [0x61], AddTodo 1000, SetInputValue [0x62], AddTodo 1000,
      DeleteTodo 1000] init = 2 \<and>
   deleteHits [SetInputValue [0x61], AddTodo 1000, SetInputValue [0x62], AddTodo 1000,
      DeleteTodo 1000] init = 1"
  by (simp add: totalCount_def init_def addTodo_def deleteTodo_def setTodos_def
      setInputValue_def trim_def isWhiteSpace_def)

end
